theory Spec2Isabelle
  imports Complex_Main "HOL-Library.Sublist" "HOL-Library.Multiset"
begin

section \<open>Data model\<close>

text \<open>
  JavaScript numbers are modelled by exact reals (integers where the source only ever
  holds integers). Where a computation can leave the finite numbers (a division by
  zero giving \<open>Infinity\<close> or \<open>NaN\<close>), the value is a \<open>real option\<close> and
  \<open>None\<close> stands for any non-finite result.
\<close>

type_synonym byte = nat

subsection \<open>Pixel rectangle of \<open>processFrame\<close>\<close>

record pixelCoords =
  pc_x :: real
  pc_y :: real
  pc_width :: real
  pc_height :: real

text \<open>
  The validation block of \<open>processFrame\<close> (videoProcessor.ts, "VALIDATION: Check that
  mask coordinates are within frame bounds"): the clamp runs only when the guard finds
  the rectangle outside the frame; otherwise the rectangle is left as it is.
\<close>

definition exceedsFrameBounds :: "pixelCoords \<Rightarrow> real \<Rightarrow> real \<Rightarrow> bool" where
  "exceedsFrameBounds pc originalWidth originalHeight \<longleftrightarrow>
     pc_x pc < 0 \<or> pc_y pc < 0 \<or>
     pc_x pc + pc_width pc > originalWidth \<or>
     pc_y pc + pc_height pc > originalHeight"

definition clampPixelCoords :: "pixelCoords \<Rightarrow> real \<Rightarrow> real \<Rightarrow> pixelCoords" where
  "clampPixelCoords pc originalWidth originalHeight =
     (if exceedsFrameBounds pc originalWidth originalHeight then
        (let x' = max 0 (min (pc_x pc) (originalWidth - 1));
             y' = max 0 (min (pc_y pc) (originalHeight - 1));
             w' = max 1 (min (pc_width pc) (originalWidth - x'));
             h' = max 1 (min (pc_height pc) (originalHeight - y'))
         in \<lparr>pc_x = x', pc_y = y', pc_width = w', pc_height = h'\<rparr>)
      else pc)"

definition withinFrame :: "pixelCoords \<Rightarrow> real \<Rightarrow> real \<Rightarrow> bool" where
  "withinFrame pc frameWidth frameHeight \<longleftrightarrow>
     0 \<le> pc_x pc \<and> 0 \<le> pc_y pc \<and>
     pc_x pc + pc_width pc \<le> frameWidth \<and>
     pc_y pc + pc_height pc \<le> frameHeight"

subsection \<open>Mask description (shared/schema.ts, \<open>MaskData\<close>)\<close>

datatype mask_type = Rectangle | Circle | Polygon | Freeform

datatype coordinates =
    CoordArray "real list"
  | CoordObject real real real real

record dimensions =
  dim_width :: real
  dim_height :: real

record displayInfo =
  di_scale :: real
  di_offsetX :: real
  di_offsetY :: real

record MaskData =
  md_type :: mask_type
  md_coordinates :: coordinates
  md_opacity :: real
  md_canvasWidth :: "real option"
  md_canvasHeight :: "real option"
  md_canvasDataUrl :: "string option"
  md_originalCanvasDimensions :: "dimensions option"
  md_imageDimensions :: "dimensions option"
  md_imageDisplayInfo :: "displayInfo option"

subsection \<open>Coordinate transform (\<open>calculateTransformationMatrix\<close>, \<open>transformCoordinates\<close>)\<close>









subsection \<open>External raster primitive and errors\<close>

text \<open>
  Every \<open>throw\<close> of the modelled code and every failure of the external image library
  (sharp) is a value of this type.
\<close>

datatype error =
    InvalidCanvasDataUrl
  | InvalidDataUrlFormat
  | CouldNotExtractBase64
  | SharpError string
  | InvalidMaskDimensions nat nat
  | FrameDimensionMismatch nat nat nat nat nat
  | InvalidOutputDimensions int int
  | EmptyVolume
  | DebugExportError string
  | ExtractFrameBatchFailed string
  | JobNotFound
  | IOError string

record raw_image =
  raw_data :: "byte list"
  raw_width :: nat
  raw_height :: nat
  raw_channels :: nat

datatype fit_mode = Fill | Contain | Cover

datatype image_format = PNG | JPEG

text \<open>
  The calls into sharp, each returning \<open>Inl\<close> when the call throws:
  \<open>sharp_metadata\<close> is \<open>Sharp(buf).metadata()\<close> (width and height, 0 when undefined),
  \<open>sharp_raw\<close> is \<open>Sharp(buf).raw().toBuffer()\<close>,
  \<open>sharp_decodeResize\<close> is \<open>Sharp(Buffer.from(base64)).resize(w, h, fill).raw().toBuffer()\<close>,
  \<open>sharp_rawResize\<close> is the same on a raw raster, and \<open>sharp_encode\<close> is the optional
  \<open>resize\<close> followed by \<open>.png()\<close> or \<open>.jpeg()\<close> and \<open>toBuffer()\<close>.
  \<open>debugExportError\<close> is the error, if any, of the debug files written for frame 0.
\<close>

record sharp =
  sharp_metadata :: "byte list \<Rightarrow> error + (nat \<times> nat)"
  sharp_raw :: "byte list \<Rightarrow> error + raw_image"
  sharp_decodeResize :: "string \<Rightarrow> int \<Rightarrow> int \<Rightarrow> error + raw_image"
  sharp_rawResize :: "raw_image \<Rightarrow> int \<Rightarrow> int \<Rightarrow> error + raw_image"
  sharp_encode :: "image_format \<Rightarrow> raw_image \<Rightarrow> (int \<times> int \<times> fit_mode) option \<Rightarrow> error + byte list"
  debugExportError :: "error option"

subsection \<open>Raster-payload path (\<open>createMaskFromBase64\<close>)\<close>

fun split_on :: "char \<Rightarrow> string \<Rightarrow> string list" where
  "split_on d [] = [[]]"
| "split_on d (c # cs) =
     (if c = d then [] # split_on d cs
      else (case split_on d cs of p # ps \<Rightarrow> (c # p) # ps | [] \<Rightarrow> [[c]]))"

fun str_includes :: "string \<Rightarrow> string \<Rightarrow> bool" where
  "str_includes [] sub = (sub = [])"
| "str_includes (c # cs) sub = (prefix sub (c # cs) \<or> str_includes cs sub)"

text \<open>The checks on the data URL and the extraction of its base64 part.\<close>

definition maskPayload :: "string \<Rightarrow> error + string" where
  "maskPayload canvasDataUrl =
     (if canvasDataUrl = [] then Inl InvalidCanvasDataUrl
      else if \<not> prefix ''data:image/'' canvasDataUrl then Inl InvalidDataUrlFormat
      else (let parts = split_on CHR '','' canvasDataUrl in
            if length parts \<noteq> 2 \<or> \<not> str_includes (parts ! 0) ''base64''
            then Inl CouldNotExtractBase64
            else Inr (parts ! 1)))"

text \<open>\<open>Math.round\<close> rounds half up.\<close>

definition jsRound :: "real \<Rightarrow> int" where
  "jsRound v = \<lfloor>v + 1 / 2\<rfloor>"

text \<open>
  Scaling of the decoded payload to the frame: two steps (canvas to displayed image
  size, then to the frame size) when the mask carries display information, one direct
  step otherwise.
\<close>

definition scaleMaskRaster ::
  "sharp \<Rightarrow> string \<Rightarrow> nat \<Rightarrow> nat \<Rightarrow> MaskData option \<Rightarrow> error + raw_image" where
  "scaleMaskRaster env base64Data frameWidth frameHeight maskData =
     (case (case maskData of
              Some md \<Rightarrow>
                (case (md_imageDisplayInfo md, md_imageDimensions md) of
                   (Some info, Some dims) \<Rightarrow> Some (info, dims)
                 | _ \<Rightarrow> None)
            | None \<Rightarrow> None)
      of Some (info, dims) \<Rightarrow>
           (let displayScale = di_scale info;
                displayedWidth = dim_width dims * displayScale;
                displayedHeight = dim_height dims * displayScale
            in (case sharp_decodeResize env base64Data (jsRound displayedWidth) (jsRound displayedHeight) of
                  Inl e \<Rightarrow> Inl e
                | Inr intermediateInfo \<Rightarrow>
                    sharp_rawResize env intermediateInfo (int frameWidth) (int frameHeight)))
       | None \<Rightarrow> sharp_decodeResize env base64Data (int frameWidth) (int frameHeight))"

definition alphaThreshold :: nat where "alphaThreshold = 128"
definition redMinimum :: nat where "redMinimum = 150"
definition redDominanceRatio :: real where "redDominanceRatio = 1.5"

text \<open>\<open>buf[i] || 0\<close>: a read past the end is \<open>undefined\<close> and becomes 0.\<close>

definition byteAt :: "byte list \<Rightarrow> nat \<Rightarrow> byte" where
  "byteAt buf i = (if i < length buf then buf ! i else 0)"

definition isMaskPixel :: "byte list \<Rightarrow> nat \<Rightarrow> nat \<Rightarrow> bool" where
  "isMaskPixel maskRaw maskChannels i =
     (let maskPixelIndex = i * maskChannels;
          maskR = byteAt maskRaw maskPixelIndex;
          maskG = byteAt maskRaw (maskPixelIndex + 1);
          maskB = byteAt maskRaw (maskPixelIndex + 2);
          maskA = (if maskChannels > 3 then byteAt maskRaw (maskPixelIndex + 3) else 255);
          isDrawn = (maskA > alphaThreshold);
          isRed = (maskR > redMinimum \<and>
                   real maskR > real maskG * redDominanceRatio \<and>
                   real maskR > real maskB * redDominanceRatio)
      in isDrawn \<and> isRed)"

definition markOpaque :: "byte list \<Rightarrow> nat \<Rightarrow> byte list" where
  "markOpaque resultBuffer outputIndex =
     resultBuffer[outputIndex := 255, outputIndex + 1 := 255,
                  outputIndex + 2 := 255, outputIndex + 3 := 255]"

definition detectStep :: "byte list \<Rightarrow> nat \<Rightarrow> byte list \<Rightarrow> nat \<Rightarrow> byte list" where
  "detectStep maskRaw maskChannels resultBuffer i =
     (if isMaskPixel maskRaw maskChannels i then markOpaque resultBuffer (i * 4)
      else resultBuffer)"

text \<open>The per-pixel loop \<open>for (i = 0; i < pixelCount; i++)\<close> over a zero-filled buffer.\<close>

definition detectMaskPixels :: "byte list \<Rightarrow> nat \<Rightarrow> nat \<Rightarrow> byte list" where
  "detectMaskPixels maskRaw maskChannels pixelCount =
     foldl (detectStep maskRaw maskChannels) (replicate (pixelCount * 4) 0) [0..<pixelCount]"

text \<open>The \<open>try\<close> body up to the scaled raster; the \<open>catch\<close> returns the transparent buffer.\<close>

definition loadMaskRaster ::
  "sharp \<Rightarrow> string \<Rightarrow> nat \<Rightarrow> nat \<Rightarrow> MaskData option \<Rightarrow> error + raw_image" where
  "loadMaskRaster env canvasDataUrl frameWidth frameHeight maskData =
     (case maskPayload canvasDataUrl of
        Inl e \<Rightarrow> Inl e
      | Inr base64Data \<Rightarrow> scaleMaskRaster env base64Data frameWidth frameHeight maskData)"

definition createMaskFromBase64 ::
  "sharp \<Rightarrow> string \<Rightarrow> nat \<Rightarrow> nat \<Rightarrow> MaskData option \<Rightarrow> byte list" where
  "createMaskFromBase64 env canvasDataUrl frameWidth frameHeight maskData =
     (case loadMaskRaster env canvasDataUrl frameWidth frameHeight maskData of
        Inr maskInfo \<Rightarrow>
          detectMaskPixels (raw_data maskInfo) (raw_channels maskInfo) (frameWidth * frameHeight)
      | Inl e \<Rightarrow> replicate (frameWidth * frameHeight * 4) 0)"

definition pixelAt :: "byte list \<Rightarrow> nat \<Rightarrow> byte \<times> byte \<times> byte \<times> byte" where
  "pixelAt buf i = (buf ! (i * 4), buf ! (i * 4 + 1), buf ! (i * 4 + 2), buf ! (i * 4 + 3))"

subsection \<open>Vector-shape path (\<open>createMaskRgbaBuffer\<close>)\<close>

text \<open>
  \<open>Math.floor((opacity / 100) * 255)\<close> stored into a byte of a \<open>Buffer\<close>, which keeps
  the value modulo 256.
\<close>

definition opacityByte :: "real \<Rightarrow> byte" where
  "opacityByte opacity = nat (\<lfloor>(opacity / 100) * 255\<rfloor> mod 256)"

definition writeMaskPixel :: "byte \<Rightarrow> byte list \<Rightarrow> nat \<Rightarrow> byte list" where
  "writeMaskPixel alpha maskBuffer pixelIndex =
     maskBuffer[pixelIndex := 255, pixelIndex + 1 := 255,
                pixelIndex + 2 := 255, pixelIndex + 3 := alpha]"

text \<open>Array elements that are missing are \<open>undefined\<close>; every comparison with them is false.\<close>

definition nthOpt :: "real list \<Rightarrow> nat \<Rightarrow> real option" where
  "nthOpt xs i = (if i < length xs then Some (xs ! i) else None)"

definition optLess :: "real option \<Rightarrow> real \<Rightarrow> bool" where
  "optLess a c = (case a of Some v \<Rightarrow> v < c | None \<Rightarrow> False)"

definition optLessEq :: "real option \<Rightarrow> real \<Rightarrow> bool" where
  "optLessEq a c = (case a of Some v \<Rightarrow> v \<le> c | None \<Rightarrow> False)"

definition optGreater :: "real option \<Rightarrow> real \<Rightarrow> bool" where
  "optGreater a c = (case a of Some v \<Rightarrow> v > c | None \<Rightarrow> False)"

text \<open>
  The pixel indices (already multiplied by 4) written by the two nested loops
  \<open>for (py = y; py < y + h && py < height; py++) for (px = x; px < x + w && px < width; px++)\<close>,
  in the order of the writes.
\<close>

definition boxPixels :: "int \<Rightarrow> int \<Rightarrow> int \<Rightarrow> int \<Rightarrow> nat \<Rightarrow> nat \<Rightarrow> nat list" where
  "boxPixels x y w h width height =
     concat (map (\<lambda>py. map (\<lambda>px. nat ((py * int width + px) * 4))
                            [x..min (x + w) (int width) - 1])
                 [y..min (y + h) (int height) - 1])"

definition rectangleRegion :: "coordinates \<Rightarrow> nat \<Rightarrow> nat \<Rightarrow> nat list" where
  "rectangleRegion coords width height =
     (let (xPct, yPct, wPct, hPct) =
            (case coords of
               CoordArray a \<Rightarrow> (nthOpt a 0, nthOpt a 1, nthOpt a 2, nthOpt a 3)
             | CoordObject x y w h \<Rightarrow> (Some x, Some y, Some w, Some h))
      in if optLess xPct 0 \<or> optGreater xPct 1 \<or> optLess yPct 0 \<or> optGreater yPct 1 \<or>
            optLessEq wPct 0 \<or> optLessEq hPct 0
         then (let centerX = \<lfloor>real width * 0.25\<rfloor>;
                   centerY = \<lfloor>real height * 0.25\<rfloor>;
                   centerW = \<lfloor>real width * 0.5\<rfloor>;
                   centerH = \<lfloor>real height * 0.5\<rfloor>
               in boxPixels centerX centerY centerW centerH width height)
         else (case (xPct, yPct, wPct, hPct) of
                 (Some xp, Some yp, Some wp, Some hp) \<Rightarrow>
                   boxPixels \<lfloor>xp * real width\<rfloor> \<lfloor>yp * real height\<rfloor>
                             \<lfloor>wp * real width\<rfloor> \<lfloor>hp * real height\<rfloor> width height
               | _ \<Rightarrow> []))"

text \<open>The test \<open>Math.sqrt((px - cx) ** 2 + (py - cy) ** 2) <= radius\<close> of the circle loop.\<close>

definition insideCircle :: "real \<Rightarrow> real \<Rightarrow> real \<Rightarrow> real \<Rightarrow> real \<Rightarrow> bool" where
  "insideCircle px py cx cy radius \<longleftrightarrow> sqrt ((px - cx)\<^sup>2 + (py - cy)\<^sup>2) \<le> radius"

text \<open>The same test without the square root, for evaluation.\<close>

lemma insideCircle_code [code]:
  "insideCircle px py cx cy radius \<longleftrightarrow>
     0 \<le> radius \<and> (px - cx)\<^sup>2 + (py - cy)\<^sup>2 \<le> radius\<^sup>2"
proof (cases "0 \<le> radius")
  case True
  then have "sqrt ((px - cx)\<^sup>2 + (py - cy)\<^sup>2) \<le> radius \<longleftrightarrow>
      sqrt ((px - cx)\<^sup>2 + (py - cy)\<^sup>2) \<le> sqrt (radius\<^sup>2)"
    by simp
  also have "\<dots> \<longleftrightarrow> (px - cx)\<^sup>2 + (py - cy)\<^sup>2 \<le> radius\<^sup>2"
    by (rule real_sqrt_le_iff)
  finally show ?thesis using True by (simp add: insideCircle_def)
next
  case False
  have "0 \<le> sqrt ((px - cx)\<^sup>2 + (py - cy)\<^sup>2)" by simp
  with False have "\<not> sqrt ((px - cx)\<^sup>2 + (py - cy)\<^sup>2) \<le> radius" by linarith
  with False show ?thesis by (simp add: insideCircle_def)
qed

definition circleRegion :: "coordinates \<Rightarrow> nat \<Rightarrow> nat \<Rightarrow> nat list" where
  "circleRegion coords width height =
     (let (cxPct, cyPct, radiusPct) =
            (case coords of
               CoordArray a \<Rightarrow> (nthOpt a 0, nthOpt a 1, nthOpt a 2)
             | CoordObject x y w h \<Rightarrow> (Some (x + w / 2), Some (y + h / 2), Some (min w h / 2)))
      in (case (cxPct, cyPct, radiusPct) of
            (Some cxp, Some cyp, Some rp) \<Rightarrow>
              (let cx = cxp * real width;
                   cy = cyp * real height;
                   radius = rp * real (min width height)
               in concat (map (\<lambda>py. map (\<lambda>px. (py * width + px) * 4)
                                 (filter (\<lambda>px. insideCircle (real px) (real py) cx cy radius)
                                         [0..<width]))
                              [0..<height]))
          | _ \<Rightarrow> []))"

definition maskRegion :: "MaskData \<Rightarrow> nat \<Rightarrow> nat \<Rightarrow> nat list" where
  "maskRegion maskData width height =
     (case md_type maskData of
        Rectangle \<Rightarrow> rectangleRegion (md_coordinates maskData) width height
      | Circle \<Rightarrow> circleRegion (md_coordinates maskData) width height
      | _ \<Rightarrow> map (\<lambda>i. i * 4) [0..<width * height])"

definition vectorMask :: "MaskData \<Rightarrow> nat \<Rightarrow> nat \<Rightarrow> byte list" where
  "vectorMask maskData width height =
     foldl (writeMaskPixel (opacityByte (md_opacity maskData)))
           (replicate (width * height * 4) 0)
           (maskRegion maskData width height)"

definition hasCanvasDataUrl :: "MaskData \<Rightarrow> bool" where
  "hasCanvasDataUrl maskData =
     (case md_canvasDataUrl maskData of Some url \<Rightarrow> url \<noteq> [] | None \<Rightarrow> False)"

definition createMaskRgbaBuffer :: "sharp \<Rightarrow> MaskData \<Rightarrow> nat \<Rightarrow> nat \<Rightarrow> error + byte list" where
  "createMaskRgbaBuffer env maskData width height =
     (if hasCanvasDataUrl maskData then
        (if width \<le> 0 \<or> height \<le> 0 then Inl (InvalidMaskDimensions width height)
         else Inr (createMaskFromBase64 env (the (md_canvasDataUrl maskData)) width height
                     (Some maskData)))
      else Inr (vectorMask maskData width height))"

subsection \<open>Compositing\<close>

text \<open>
  The loop of \<open>processFrame\<close> and of \<open>processFrameBatch\<close>: a pixel whose mask alpha is
  above 0 gets its first three channels set to 0. A read of the mask past its end is
  \<open>undefined\<close>, which is not above 0; a write past the end of the frame is dropped.
\<close>

definition maskAlphaAt :: "byte list \<Rightarrow> nat \<Rightarrow> byte option" where
  "maskAlphaAt maskRgba i =
     (if i * 4 + 3 < length maskRgba then Some (maskRgba ! (i * 4 + 3)) else None)"

definition blackenPixel :: "byte list \<Rightarrow> nat \<Rightarrow> byte list" where
  "blackenPixel framePixels pixelIndex =
     framePixels[pixelIndex := 0, pixelIndex + 1 := 0, pixelIndex + 2 := 0]"

definition applyMaskStep :: "byte list \<Rightarrow> nat \<Rightarrow> byte list \<Rightarrow> nat \<Rightarrow> byte list" where
  "applyMaskStep maskRgba imageChannels framePixels i =
     (case maskAlphaAt maskRgba i of
        Some maskAlpha \<Rightarrow>
          (if maskAlpha > 0 then blackenPixel framePixels (i * imageChannels) else framePixels)
      | None \<Rightarrow> framePixels)"

definition applyMask :: "byte list \<Rightarrow> nat \<Rightarrow> nat \<Rightarrow> byte list \<Rightarrow> byte list" where
  "applyMask maskRgba imageChannels totalPixels framePixels =
     foldl (applyMaskStep maskRgba imageChannels) framePixels [0..<totalPixels]"

subsection \<open>Output settings, tasks and frame results\<close>

datatype size_setting = SizePreset nat nat | SizeOriginal | SizeCustom

datatype aspect_mode = Stretch | Letterbox | Crop

record OutputSettings =
  os_size :: size_setting
  os_customWidth :: "int option"
  os_customHeight :: "int option"
  os_width :: "int option"
  os_height :: "int option"
  os_batchSize :: nat
  os_aspectRatioMode :: "aspect_mode option"

record task =
  t_frameBuffer :: "byte list"
  t_maskData :: MaskData
  t_outputSize :: "int \<times> int"
  t_outputSettings :: OutputSettings
  t_frameNumber :: nat

record frame_result =
  frameNumber :: nat
  processedBuffer :: "byte list"
  success :: bool
  error :: "error option"

text \<open>\<open>outputSettings.aspectRatioMode || 'letterbox'\<close> and the \<open>switch\<close> on it.\<close>

definition resizeFit :: "OutputSettings \<Rightarrow> fit_mode" where
  "resizeFit outputSettings =
     (case os_aspectRatioMode outputSettings of
        Some Stretch \<Rightarrow> Fill
      | Some Letterbox \<Rightarrow> Contain
      | Some Crop \<Rightarrow> Cover
      | None \<Rightarrow> Contain)"

subsection \<open>\<open>processFrame\<close>\<close>

text \<open>
  The rectangle \<open>pixelCoords\<close> of \<open>processFrame\<close>: absolute pixel coordinates when the
  mask carries an object, the legacy fractions of a four-element array otherwise
  (\<open>Math.floor(..) || 100\<close> for width and height), then the validation block. The
  source only logs this rectangle.
\<close>

definition framePixelCoords :: "coordinates \<Rightarrow> nat \<Rightarrow> nat \<Rightarrow> pixelCoords option" where
  "framePixelCoords coords originalWidth originalHeight =
     (case coords of
        CoordObject x y w h \<Rightarrow>
          Some (clampPixelCoords \<lparr>pc_x = x, pc_y = y, pc_width = w, pc_height = h\<rparr>
                  (real originalWidth) (real originalHeight))
      | CoordArray a \<Rightarrow>
          (if length a < 4 then None
           else Some (clampPixelCoords
                  \<lparr>pc_x = of_int \<lfloor>a ! 0 * real originalWidth\<rfloor>,
                   pc_y = of_int \<lfloor>a ! 1 * real originalHeight\<rfloor>,
                   pc_width = (let w = \<lfloor>a ! 2 * real originalWidth\<rfloor> in if w = 0 then 100 else of_int w),
                   pc_height = (let h = \<lfloor>a ! 3 * real originalHeight\<rfloor> in if h = 0 then 100 else of_int h)\<rparr>
                  (real originalWidth) (real originalHeight))))"

text \<open>
  "DIMENSION VALIDATION": frame 0 stores its dimensions in the process-wide
  \<open>referenceDimensions\<close>; any other frame is compared with the stored value and throws
  on a difference. The second component is the new value of the global.
\<close>

definition validateDimensions ::
  "(nat \<times> nat) option \<Rightarrow> nat \<Rightarrow> nat \<Rightarrow> nat \<Rightarrow> (error + unit) \<times> (nat \<times> nat) option" where
  "validateDimensions referenceDimensions frameNo originalWidth originalHeight =
     (if frameNo = 0 then (Inr (), Some (originalWidth, originalHeight))
      else (case referenceDimensions of
              Some (refWidth, refHeight) \<Rightarrow>
                (if refWidth \<noteq> originalWidth \<or> refHeight \<noteq> originalHeight
                 then (Inl (FrameDimensionMismatch refWidth refHeight frameNo originalWidth originalHeight),
                       referenceDimensions)
                 else (Inr (), referenceDimensions))
            | None \<Rightarrow> (Inr (), referenceDimensions)))"

text \<open>
  The loop bound \<open>totalPixels = framePixels.length / imageChannels\<close>: the loop runs for
  every natural \<open>i\<close> below the quotient. sharp delivers 1 to 4 channels.
\<close>

definition totalPixelsOf :: "byte list \<Rightarrow> nat \<Rightarrow> nat" where
  "totalPixelsOf framePixels imageChannels = nat \<lceil>real (length framePixels) / real imageChannels\<rceil>"

definition frameResize :: "task \<Rightarrow> (int \<times> int \<times> fit_mode) option" where
  "frameResize t =
     (if os_size (t_outputSettings t) \<noteq> SizeOriginal \<and> fst (t_outputSize t) > 0 \<and> snd (t_outputSize t) > 0
      then Some (fst (t_outputSize t), snd (t_outputSize t), resizeFit (t_outputSettings t))
      else None)"

text \<open>Mask creation, compositing and encoding of one decoded frame.\<close>

definition maskAndEncode :: "sharp \<Rightarrow> task \<Rightarrow> nat \<Rightarrow> nat \<Rightarrow> error + byte list" where
  "maskAndEncode env t originalWidth originalHeight =
     (case sharp_raw env (t_frameBuffer t) of
        Inl e \<Rightarrow> Inl e
      | Inr frameRgb \<Rightarrow>
          (case createMaskRgbaBuffer env (t_maskData t) originalWidth originalHeight of
             Inl e \<Rightarrow> Inl e
           | Inr maskRgba \<Rightarrow>
               (let imageChannels = raw_channels frameRgb;
                    framePixels = applyMask maskRgba imageChannels
                                    (totalPixelsOf (raw_data frameRgb) imageChannels)
                                    (raw_data frameRgb)
                in sharp_encode env PNG
                     \<lparr>raw_data = framePixels, raw_width = originalWidth,
                      raw_height = originalHeight, raw_channels = imageChannels\<rparr>
                     (frameResize t))))"

text \<open>The body of the \<open>try\<close> block, with the new value of \<open>referenceDimensions\<close>.\<close>

definition processFrame_try ::
  "sharp \<Rightarrow> (nat \<times> nat) option \<Rightarrow> task \<Rightarrow> (error + byte list) \<times> (nat \<times> nat) option" where
  "processFrame_try env referenceDimensions t =
     (case (if t_frameNumber t = 0 then debugExportError env else None) of
        Some e \<Rightarrow> (Inl e, referenceDimensions)
      | None \<Rightarrow>
          (case sharp_metadata env (t_frameBuffer t) of
             Inl e \<Rightarrow> (Inl e, referenceDimensions)
           | Inr (metaWidth, metaHeight) \<Rightarrow>
               (let originalWidth = (if metaWidth = 0 then 1920 else metaWidth);
                    originalHeight = (if metaHeight = 0 then 1080 else metaHeight)
                in (case validateDimensions referenceDimensions (t_frameNumber t)
                           originalWidth originalHeight of
                      (Inl e, ref') \<Rightarrow> (Inl e, ref')
                    | (Inr u, ref') \<Rightarrow>
                        (maskAndEncode env t originalWidth originalHeight, ref')))))"

text \<open>
  \<open>processFrame\<close>: the \<open>catch\<close> turns every error of the body into a failure result;
  nothing is thrown to the caller.
\<close>

definition processFrame ::
  "sharp \<Rightarrow> (nat \<times> nat) option \<Rightarrow> task \<Rightarrow> frame_result \<times> (nat \<times> nat) option" where
  "processFrame env referenceDimensions t =
     (case processFrame_try env referenceDimensions t of
        (Inr buf, ref') \<Rightarrow>
          (\<lparr>frameNumber = t_frameNumber t, processedBuffer = buf, success = True, error = None\<rparr>, ref')
      | (Inl e, ref') \<Rightarrow>
          (\<lparr>frameNumber = t_frameNumber t, processedBuffer = [], success = False, error = Some e\<rparr>, ref'))"

subsection \<open>\<open>processFrameBatch\<close>\<close>







subsection \<open>Batch scheduling of a video job (\<open>createFrameBatches\<close>, \<open>processBatchesInParallel\<close>)\<close>

text \<open>
  \<open>for (start = 0; start < totalFrames; start += batchSize)\<close>, collecting
  \<open>{start, end}\<close> with an inclusive \<open>end\<close>. With \<open>batchSize = 0\<close> the loop does not
  terminate, which is the value \<open>None\<close>.
\<close>

partial_function (option) createFrameBatches_from :: "nat \<Rightarrow> nat \<Rightarrow> nat \<Rightarrow> (nat \<times> nat) list option" where
  "createFrameBatches_from start totalFrames batchSize =
     (if start < totalFrames then
        Option.bind (createFrameBatches_from (start + batchSize) totalFrames batchSize)
          (\<lambda>rest. Some ((start, min (start + batchSize - 1) (totalFrames - 1)) # rest))
      else Some [])"

definition createFrameBatches :: "nat \<Rightarrow> nat \<Rightarrow> (nat \<times> nat) list option" where
  "createFrameBatches totalFrames batchSize = createFrameBatches_from 0 totalFrames batchSize"












text \<open>
  The entry pushed for a result (an empty buffer for a failed frame) and the final sort
  by frame number; \<open>Array.prototype.sort\<close> is stable.
\<close>

definition processedFrameOf :: "frame_result \<Rightarrow> nat \<times> byte list" where
  "processedFrameOf result =
     (if success result then (frameNumber result, processedBuffer result)
      else (frameNumber result, []))"



text \<open>The frame numbers a batch asks for.\<close>

definition batchFrames :: "nat \<times> nat \<Rightarrow> nat list" where
  "batchFrames batch = [fst batch..<snd batch + 1]"


subsection \<open>DICOM frame source (frameExtractor.ts)\<close>

text \<open>
  The naturalized dataset. A numeric attribute that is absent is 0 here, since the code
  reads each of them as \<open>dataset.X || default\<close> or tests it for truthiness. The window
  attributes may be absent, a number, or an array of numbers. The pixel data is either
  binary with a byte length of its own (an \<open>ArrayBuffer\<close> or a typed array), or bytes
  wrapped in another object (inline binary, the first property of an object), or bytes
  one level deeper in a nested object (which only \<open>extractDicomFrame\<close> searches), or of
  an unsupported shape.
\<close>

datatype dicom_value = Absent | Num real | NumArray "real list"

datatype pixel_data =
    NoPixelData
  | BinaryData "byte list"
  | WrappedData "byte list"
  | NestedData "byte list"
  | UnsupportedPixelData

record dicom_dataset =
  Rows :: nat
  Columns :: nat
  BitsAllocated :: nat
  PixelRepresentation :: nat
  Modality :: string
  WindowCenter :: dicom_value
  WindowWidth :: dicom_value
  NumberOfFrames :: nat
  PixelData :: pixel_data

text \<open>
  The decoded image before PNG encoding: a grayscale raster of \<open>cols\<close> by \<open>rows\<close>
  bytes, or the flat gray placeholder of \<open>createPlaceholderImage\<close>.
\<close>

datatype dicom_image = Gray8 nat nat "byte list" | Placeholder

datatype dicom_error = NoPixelDataFound | UnsupportedPixelFormat | RangeError

definition rowsOf :: "dicom_dataset \<Rightarrow> nat" where
  "rowsOf dataset = (if Rows dataset = 0 then 512 else Rows dataset)"

definition colsOf :: "dicom_dataset \<Rightarrow> nat" where
  "colsOf dataset = (if Columns dataset = 0 then 512 else Columns dataset)"

definition bitsAllocatedOf :: "dicom_dataset \<Rightarrow> nat" where
  "bitsAllocatedOf dataset = (if BitsAllocated dataset = 0 then 16 else BitsAllocated dataset)"

text \<open>\<open>rows * cols * (bitsAllocated / 8)\<close>, a number that need not be whole.\<close>

definition bytesPerFrameOf :: "nat \<Rightarrow> nat \<Rightarrow> nat \<Rightarrow> real" where
  "bytesPerFrameOf rows cols bitsAllocated = real rows * real cols * (real bitsAllocated / 8)"

text \<open>\<open>if (Array.isArray(v)) v = v[0]\<close>.\<close>

definition firstIfArray :: "dicom_value \<Rightarrow> real option" where
  "firstIfArray v =
     (case v of Absent \<Rightarrow> None | Num x \<Rightarrow> Some x
      | NumArray xs \<Rightarrow> (case xs of [] \<Rightarrow> None | x # rest \<Rightarrow> Some x))"

text \<open>
  The bytes recovered from the pixel data by the format handling of \<open>extractDicomFrame\<close>
  and of \<open>extractDicomImage\<close>, or the error thrown.
\<close>

definition framePixelBuffer :: "pixel_data \<Rightarrow> dicom_error + byte list" where
  "framePixelBuffer pixelData =
     (case pixelData of
        NoPixelData \<Rightarrow> Inl NoPixelDataFound
      | BinaryData bytes \<Rightarrow> Inr bytes
      | WrappedData bytes \<Rightarrow> Inr bytes
      | NestedData bytes \<Rightarrow> Inr bytes
      | UnsupportedPixelData \<Rightarrow> Inl UnsupportedPixelFormat)"

definition imagePixelBuffer :: "pixel_data \<Rightarrow> dicom_error + byte list" where
  "imagePixelBuffer pixelData =
     (case pixelData of
        NoPixelData \<Rightarrow> Inl NoPixelDataFound
      | BinaryData bytes \<Rightarrow> Inr bytes
      | WrappedData bytes \<Rightarrow> Inr bytes
      | NestedData bytes \<Rightarrow> Inl UnsupportedPixelFormat
      | UnsupportedPixelData \<Rightarrow> Inl UnsupportedPixelFormat)"

definition detectDicomFrameCount :: "dicom_dataset \<Rightarrow> nat" where
  "detectDicomFrameCount dataset =
     (if NumberOfFrames dataset \<noteq> 0 \<and> NumberOfFrames dataset > 1 then NumberOfFrames dataset
      else (let expectedBytesPerFrame =
                  bytesPerFrameOf (rowsOf dataset) (colsOf dataset) (bitsAllocatedOf dataset);
                pixelDataSize = (case PixelData dataset of BinaryData bytes \<Rightarrow> length bytes | _ \<Rightarrow> 0)
            in if PixelData dataset \<noteq> NoPixelData \<and> real pixelDataSize > expectedBytesPerFrame
               then nat \<lfloor>real pixelDataSize / expectedBytesPerFrame\<rfloor>
               else 1))"

text \<open>A \<open>Uint16Array\<close> view of bytes (little endian); a trailing odd byte is not part of it.\<close>

fun uint16Samples :: "byte list \<Rightarrow> nat list" where
  "uint16Samples (lo # hi # rest) = (lo + 256 * hi) # uint16Samples rest"
| "uint16Samples rest = []"

text \<open>A store into a \<open>Uint8Array\<close> keeps the value modulo 256.\<close>

definition toUint8 :: "int \<Rightarrow> byte" where
  "toUint8 v = nat (v mod 256)"

definition minOf :: "nat list \<Rightarrow> nat" where
  "minOf xs = (case xs of [] \<Rightarrow> 0 | x # rest \<Rightarrow> foldl min x rest)"

definition maxOf :: "nat list \<Rightarrow> nat" where
  "maxOf xs = (case xs of [] \<Rightarrow> 0 | x # rest \<Rightarrow> foldl max x rest)"

text \<open>The windowing formula shared by both extraction paths.\<close>

definition windowSample :: "real \<Rightarrow> real \<Rightarrow> real \<Rightarrow> byte" where
  "windowSample windowMin windowMax v =
     (if v \<le> windowMin then 0
      else if v \<ge> windowMax then 255
      else toUint8 (jsRound (((v - windowMin) / (windowMax - windowMin)) * 255)))"

text \<open>
  Auto-normalization of the helper: \<open>Math.round(((v - min) / range) * 255)\<close>; with
  \<open>range = 0\<close> the quotient is \<open>NaN\<close>, stored as 0.
\<close>

definition autoNormalize :: "nat \<Rightarrow> nat \<Rightarrow> nat \<Rightarrow> byte" where
  "autoNormalize lo hi v =
     (if hi - lo = 0 then 0
      else toUint8 (jsRound (((real v - real lo) / (real hi - real lo)) * 255)))"

text \<open>"Ensure correct size": truncation or zero padding to \<open>rows * cols\<close> bytes.\<close>

definition fitToSize :: "byte list \<Rightarrow> nat \<Rightarrow> byte list" where
  "fitToSize normalizedPixelData expectedSize =
     (if length normalizedPixelData > expectedSize then take expectedSize normalizedPixelData
      else normalizedPixelData @ replicate (expectedSize - length normalizedPixelData) 0)"

text \<open>\<open>windowCenter && windowWidth\<close> of the helper: present and not 0.\<close>

definition truthyNumber :: "real option \<Rightarrow> bool" where
  "truthyNumber v = (case v of Some x \<Rightarrow> x \<noteq> 0 | None \<Rightarrow> False)"

text \<open>
  \<open>processDicomPixelDataHelper\<close>. \<open>maxArguments\<close> is the engine's limit on the number
  of arguments of a call: \<open>Math.min(...uint16Data)\<close> throws a \<open>RangeError\<close> beyond it.
\<close>

definition processDicomPixelDataHelper ::
  "nat \<Rightarrow> dicom_dataset \<Rightarrow> byte list \<Rightarrow> nat \<Rightarrow> nat \<Rightarrow> nat \<Rightarrow> dicom_error + dicom_image" where
  "processDicomPixelDataHelper maxArguments dataset pixelDataArray rows cols bitsAllocated =
     (let windowCenter = firstIfArray (WindowCenter dataset);
          windowWidth = firstIfArray (WindowWidth dataset)
      in if bitsAllocated = 16 then
           (let uint16Data = uint16Samples pixelDataArray in
            if truthyNumber windowCenter \<and> truthyNumber windowWidth then
              (let windowMin = the windowCenter - the windowWidth / 2;
                   windowMax = the windowCenter + the windowWidth / 2
               in Inr (Gray8 cols rows
                        (fitToSize (map (\<lambda>v. windowSample windowMin windowMax (real v)) uint16Data)
                                   (rows * cols))))
            else if length uint16Data > maxArguments then Inl RangeError
            else Inr (Gray8 cols rows
                       (fitToSize (map (autoNormalize (minOf uint16Data) (maxOf uint16Data)) uint16Data)
                                  (rows * cols))))
         else Inr (Gray8 cols rows (fitToSize pixelDataArray (rows * cols))))"

text \<open>
  The window of \<open>extractDicomImage\<close>: the dataset's own window when both attributes are
  present (not \<open>null\<close>, not \<open>undefined\<close>), else the preset of the modality, else the
  minimum and maximum of the samples (\<open>None\<close> for an empty sample array, where the
  bounds are \<open>undefined\<close>).
\<close>

definition selectWindow :: "dicom_dataset \<Rightarrow> nat list \<Rightarrow> (real \<times> real) option" where
  "selectWindow dataset pixelArray =
     (case (firstIfArray (WindowCenter dataset), firstIfArray (WindowWidth dataset)) of
        (Some windowCenter, Some windowWidth) \<Rightarrow>
          Some (windowCenter - windowWidth / 2, windowCenter + windowWidth / 2)
      | _ \<Rightarrow>
          (if Modality dataset = ''CT'' then Some (40 - 400 / 2, 40 + 400 / 2)
           else if Modality dataset = ''CR'' \<or> Modality dataset = ''DX''
           then Some (1000 - 2000 / 2, 1000 + 2000 / 2)
           else (case pixelArray of [] \<Rightarrow> None
                 | x # rest \<Rightarrow> Some (real (minOf pixelArray), real (maxOf pixelArray)))))"

text \<open>"Signed data": a sample above 32767 stands for the sample minus 65536.\<close>

definition signedSample :: "nat \<Rightarrow> nat \<Rightarrow> real" where
  "signedSample pixelRepresentation v =
     (if pixelRepresentation = 1 \<and> v > 32767 then real v - 65536 else real v)"

definition extractDicomImage_try :: "dicom_dataset \<Rightarrow> dicom_error + dicom_image" where
  "extractDicomImage_try dataset =
     (let rows = rowsOf dataset; cols = colsOf dataset; bitsAllocated = bitsAllocatedOf dataset
      in case imagePixelBuffer (PixelData dataset) of
           Inl e \<Rightarrow> Inl e
         | Inr pixelBuffer \<Rightarrow>
             (if bitsAllocated \<le> 8 then Inr (Gray8 cols rows (fitToSize pixelBuffer (rows * cols)))
              else if odd (length pixelBuffer) then Inl RangeError
              else (let pixelArray = uint16Samples pixelBuffer in
                    case selectWindow dataset pixelArray of
                      Some (windowMin, windowMax) \<Rightarrow>
                        (if windowMax - windowMin > 0 then
                           Inr (Gray8 cols rows
                                 (fitToSize
                                    (map (\<lambda>v. windowSample windowMin windowMax
                                                 (signedSample (PixelRepresentation dataset) v))
                                         pixelArray)
                                    (rows * cols)))
                         else Inr (Gray8 cols rows
                                    (fitToSize (map (\<lambda>v. 128) pixelArray) (rows * cols))))
                    | None \<Rightarrow>
                        Inr (Gray8 cols rows (fitToSize (map (\<lambda>v. 128) pixelArray) (rows * cols))))))"

text \<open>\<open>extractDicomImage\<close>: every error ends in the placeholder image.\<close>

definition extractDicomImage :: "dicom_dataset \<Rightarrow> dicom_image" where
  "extractDicomImage dataset =
     (case extractDicomImage_try dataset of Inr img \<Rightarrow> img | Inl e \<Rightarrow> Placeholder)"

text \<open>The frame index after "Frame exceeds total frames, using frame 0".\<close>

definition effectiveFrameIndex :: "dicom_dataset \<Rightarrow> nat \<Rightarrow> nat" where
  "effectiveFrameIndex dataset frameIndex =
     (if frameIndex \<ge> detectDicomFrameCount dataset then 0 else frameIndex)"

text \<open>
  \<open>new Uint8Array(pixelBuffer, frameOffset, bytesPerFrame)\<close>: offset and length are
  truncated to whole numbers.
\<close>

definition frameSlice :: "byte list \<Rightarrow> real \<Rightarrow> real \<Rightarrow> byte list" where
  "frameSlice pixelBuffer frameOffset bytesPerFrame =
     take (nat \<lfloor>bytesPerFrame\<rfloor>) (drop (nat \<lfloor>frameOffset\<rfloor>) pixelBuffer)"

text \<open>
  \<open>extractDicomFrame\<close>: short data and every error fall back to \<open>extractDicomImage\<close>,
  the extraction of the first frame.
\<close>

definition extractDicomFrame :: "nat \<Rightarrow> dicom_dataset \<Rightarrow> nat \<Rightarrow> dicom_image" where
  "extractDicomFrame maxArguments dataset requestedIndex =
     (let rows = rowsOf dataset; cols = colsOf dataset; bitsAllocated = bitsAllocatedOf dataset;
          frameIndex = effectiveFrameIndex dataset requestedIndex;
          bytesPerFrame = bytesPerFrameOf rows cols bitsAllocated;
          frameOffset = real frameIndex * bytesPerFrame
      in case framePixelBuffer (PixelData dataset) of
           Inl e \<Rightarrow> extractDicomImage dataset
         | Inr pixelBuffer \<Rightarrow>
             (if real (length pixelBuffer) < frameOffset + bytesPerFrame
              then extractDicomImage dataset
              else (case processDicomPixelDataHelper maxArguments dataset
                           (frameSlice pixelBuffer frameOffset bytesPerFrame) rows cols bitsAllocated of
                      Inr img \<Rightarrow> img
                    | Inl e \<Rightarrow> extractDicomImage dataset)))"

subsection \<open>A small environment for concrete runs\<close>

text \<open>
  A small world used to run the definitions on concrete inputs: a frame buffer is its own
  raw RGB raster of height 1, encoding returns the raw bytes, and the mask payload
  decodes to a fixed 2x1 RGBA raster (a red pixel and a yellow pixel).
\<close>

definition exampleRaster :: raw_image where
  "exampleRaster = \<lparr>raw_data = [200, 10, 10, 255, 200, 200, 10, 255],
                     raw_width = 2, raw_height = 1, raw_channels = 4\<rparr>"

definition exampleSharp :: sharp where
  "exampleSharp =
     \<lparr>sharp_metadata = (\<lambda>buf. Inr (length buf div 3, 1)),
      sharp_raw = (\<lambda>buf. Inr \<lparr>raw_data = buf, raw_width = length buf div 3, raw_height = 1,
                              raw_channels = 3\<rparr>),
      sharp_decodeResize = (\<lambda>b64 w h. Inr exampleRaster),
      sharp_rawResize = (\<lambda>img w h. Inr img),
      sharp_encode = (\<lambda>fmt img rs. Inr (raw_data img)),
      debugExportError = None\<rparr>"

definition brokenPayloadSharp :: sharp where
  "brokenPayloadSharp =
     exampleSharp\<lparr>sharp_decodeResize := (\<lambda>b64 w h. Inl (SharpError ''unsupported image format''))\<rparr>"

definition exampleSettings :: OutputSettings where
  "exampleSettings = \<lparr>os_size = SizeOriginal, os_customWidth = None, os_customHeight = None,
      os_width = None, os_height = None, os_batchSize = 12, os_aspectRatioMode = Some Stretch\<rparr>"

definition exampleMask :: MaskData where
  "exampleMask = \<lparr>md_type = Rectangle, md_coordinates = CoordArray [0, 0, 1 / 2, 1], md_opacity = 75,
      md_canvasWidth = None, md_canvasHeight = None, md_canvasDataUrl = None,
      md_originalCanvasDimensions = None, md_imageDimensions = None, md_imageDisplayInfo = None\<rparr>"

definition payloadMask :: MaskData where
  "payloadMask = exampleMask\<lparr>md_canvasDataUrl := Some ''data:image/png;base64,AAAA''\<rparr>"

definition exampleTask :: "MaskData \<Rightarrow> nat \<Rightarrow> task" where
  "exampleTask maskData n = \<lparr>t_frameBuffer = [9, 9, 9, 7, 7, 7], t_maskData = maskData,
      t_outputSize = (2, 1), t_outputSettings = exampleSettings, t_frameNumber = n\<rparr>"




text \<open>
  Example datasets of two 16-bit samples per frame: a two-frame CT series without window
  attributes (frame 1 holds the samples 100 and 1000), and the single frame with the
  samples 0 and 1000 that carries the window center 0 and width 400.
\<close>

definition ctSeries :: dicom_dataset where
  "ctSeries = \<lparr>Rows = 1, Columns = 2, BitsAllocated = 16, PixelRepresentation = 0,
      Modality = ''CT'', WindowCenter = Absent, WindowWidth = Absent, NumberOfFrames = 2,
      PixelData = BinaryData [0, 0, 100, 0, 100, 0, 232, 3]\<rparr>"

definition centerZeroFrame :: dicom_dataset where
  "centerZeroFrame = \<lparr>Rows = 1, Columns = 2, BitsAllocated = 16, PixelRepresentation = 0,
      Modality = ''OT'', WindowCenter = Num 0, WindowWidth = Num 400, NumberOfFrames = 0,
      PixelData = BinaryData [0, 0, 232, 3]\<rparr>"

section \<open>Clamping of the mask rectangle\<close>

text \<open>
  C3, as stated, at a rectangle inside the frame with zero width and height: the guard
  is false, the clamp does not run, and the rectangle keeps width 0 and height 0.
\<close>

theorem clamp_min_size_counterexample:
  "\<not> (1 \<le> pc_width (clampPixelCoords \<lparr>pc_x = 10, pc_y = 10, pc_width = 0, pc_height = 0\<rparr> 100 100))"
  by (simp add: clampPixelCoords_def exceedsFrameBounds_def)

text \<open>
  C3 (amended): on a frame of at least 1x1 the resulting rectangle always lies inside
  the frame; its width and height are at least 1 whenever the clamp runs (the input
  exceeds the frame bounds) or the input already has width and height at least 1; and
  the rectangle (90, 90, 20, 20) on a 100x100 frame becomes (90, 90, 10, 10).
\<close>

theorem clampPixelCoords_bounds:
  assumes "1 \<le> frameWidth" and "1 \<le> frameHeight"
  shows "withinFrame (clampPixelCoords pc frameWidth frameHeight) frameWidth frameHeight
       \<and> (exceedsFrameBounds pc frameWidth frameHeight \<or> (1 \<le> pc_width pc \<and> 1 \<le> pc_height pc)
            \<longrightarrow> 1 \<le> pc_width (clampPixelCoords pc frameWidth frameHeight)
              \<and> 1 \<le> pc_height (clampPixelCoords pc frameWidth frameHeight))
       \<and> clampPixelCoords \<lparr>pc_x = 90, pc_y = 90, pc_width = 20, pc_height = 20\<rparr> 100 100
            = \<lparr>pc_x = 90, pc_y = 90, pc_width = 10, pc_height = 10\<rparr>"
  using assms
  by (auto simp add: clampPixelCoords_def exceedsFrameBounds_def withinFrame_def Let_def)

theorem clampPixelCoords_bounds_witness:
  "(1::real) \<le> 100 \<and> (1::real) \<le> 50
   \<and> exceedsFrameBounds \<lparr>pc_x = - 5, pc_y = 70, pc_width = 300, pc_height = 0\<rparr> 100 50
   \<and> clampPixelCoords \<lparr>pc_x = - 5, pc_y = 70, pc_width = 300, pc_height = 0\<rparr> 100 50
        = \<lparr>pc_x = 0, pc_y = 49, pc_width = 100, pc_height = 1\<rparr>
   \<and> withinFrame (clampPixelCoords \<lparr>pc_x = - 5, pc_y = 70, pc_width = 300, pc_height = 0\<rparr> 100 50) 100 50
   \<and> 1 \<le> pc_width (clampPixelCoords \<lparr>pc_x = - 5, pc_y = 70, pc_width = 300, pc_height = 0\<rparr> 100 50)
   \<and> 1 \<le> pc_height (clampPixelCoords \<lparr>pc_x = - 5, pc_y = 70, pc_width = 300, pc_height = 0\<rparr> 100 50)"
  using clampPixelCoords_bounds [of 100 50 "\<lparr>pc_x = - 5, pc_y = 70, pc_width = 300, pc_height = 0\<rparr>"]
  by (simp add: clampPixelCoords_def exceedsFrameBounds_def)

section \<open>Coordinate transform\<close>




section \<open>Mask rasterizer and compositing\<close>

subsection \<open>Auxiliary facts about the buffers\<close>

lemma length_writeMaskPixel [simp]: "length (writeMaskPixel a buf k) = length buf"
  by (simp add: writeMaskPixel_def)

lemma length_foldl_writeMaskPixel [simp]:
  "length (foldl (writeMaskPixel a) buf idxs) = length buf"
  by (induction idxs arbitrary: buf) simp_all

lemma alpha_writeMaskPixel:
  assumes "4 dvd idx" and "k * 4 + 3 < length buf"
  shows "writeMaskPixel a buf idx ! (k * 4 + 3) = (if idx = k * 4 then a else buf ! (k * 4 + 3))"
proof -
  from assms(1) obtain m where m: "idx = 4 * m" by (auto simp: dvd_def)
  show ?thesis
    using assms(2) unfolding m writeMaskPixel_def
    by (auto simp add: nth_list_update)
qed

lemma alpha_foldl_writeMaskPixel:
  assumes "\<forall>idx \<in> set idxs. 4 dvd idx" and "k * 4 + 3 < length buf"
  shows "foldl (writeMaskPixel a) buf idxs ! (k * 4 + 3) =
           (if k * 4 \<in> set idxs then a else buf ! (k * 4 + 3))"
  using assms
proof (induction idxs arbitrary: buf)
  case Nil
  show ?case by simp
next
  case (Cons idx idxs)
  have "foldl (writeMaskPixel a) (writeMaskPixel a buf idx) idxs ! (k * 4 + 3) =
          (if k * 4 \<in> set idxs then a else writeMaskPixel a buf idx ! (k * 4 + 3))"
    using Cons.prems by (intro Cons.IH) simp_all
  moreover have "writeMaskPixel a buf idx ! (k * 4 + 3) = (if idx = k * 4 then a else buf ! (k * 4 + 3))"
    using Cons.prems by (intro alpha_writeMaskPixel) simp_all
  ultimately show ?case by auto
qed

lemma dvd_nat_times4: "4 dvd nat (z * 4)"
proof (cases "0 \<le> z")
  case True
  then have "nat (z * 4) = nat z * 4" by (simp add: nat_mult_distrib)
  then show ?thesis by simp
next
  case False
  then show ?thesis by simp
qed

lemma dvd_nat_sum4: "4 dvd nat (a * 4 + b * 4)"
  using dvd_nat_times4 [of "a + b"] by (simp add: distrib_right)

lemma boxPixels_dvd: "idx \<in> set (boxPixels x y w h width height) \<Longrightarrow> 4 dvd idx"
  by (auto simp add: boxPixels_def dvd_nat_sum4)

lemma rectangleRegion_dvd: "idx \<in> set (rectangleRegion coords width height) \<Longrightarrow> 4 dvd idx"
  by (auto simp add: rectangleRegion_def Let_def boxPixels_dvd split: prod.splits if_splits option.splits)

lemma circleRegion_dvd: "idx \<in> set (circleRegion coords width height) \<Longrightarrow> 4 dvd idx"
  by (auto simp add: circleRegion_def Let_def split: prod.splits option.splits)

lemma maskRegion_dvd: "idx \<in> set (maskRegion maskData width height) \<Longrightarrow> 4 dvd idx"
  by (auto simp add: maskRegion_def rectangleRegion_dvd circleRegion_dvd split: mask_type.splits)

lemma maskRegion_opacity [simp]:
  "maskRegion (maskData\<lparr>md_opacity := opac\<rparr>) width height = maskRegion maskData width height"
  by (simp add: maskRegion_def split: mask_type.splits)

lemma maskAlphaAt_vectorMask:
  "maskAlphaAt (vectorMask maskData width height) i =
     (if i * 4 + 3 < width * height * 4
      then Some (if i * 4 \<in> set (maskRegion maskData width height)
                 then opacityByte (md_opacity maskData) else 0)
      else None)"
  using alpha_foldl_writeMaskPixel [of "maskRegion maskData width height" i
      "replicate (width * height * 4) 0" "opacityByte (md_opacity maskData)"]
  by (auto simp add: maskAlphaAt_def vectorMask_def maskRegion_dvd)

lemma opacityByte_range:
  assumes "1 \<le> opac" and "opac \<le> 100"
  shows "opacityByte opac = nat \<lfloor>(opac / 100) * 255\<rfloor>" and "0 < opacityByte opac"
proof -
  have lo: "2 \<le> \<lfloor>(opac / 100) * 255\<rfloor>" using assms(1) by (simp add: le_floor_iff)
  have hi: "\<lfloor>(opac / 100) * 255\<rfloor> \<le> 255" using assms(2) by (simp add: floor_le_iff)
  from lo hi show "opacityByte opac = nat \<lfloor>(opac / 100) * 255\<rfloor>"
    by (simp add: opacityByte_def)
  from lo hi show "0 < opacityByte opac"
    by (simp add: opacityByte_def)
qed

lemma opacityByte_zero [simp]: "opacityByte 0 = 0"
  by (simp add: opacityByte_def)

lemma applyMask_cong:
  assumes "\<And>i. i < n \<Longrightarrow> (case maskAlphaAt m1 i of Some a \<Rightarrow> a > 0 | None \<Rightarrow> False)
                       = (case maskAlphaAt m2 i of Some a \<Rightarrow> a > 0 | None \<Rightarrow> False)"
  shows "applyMask m1 ch n fp = applyMask m2 ch n fp"
proof -
  have "applyMaskStep m1 ch fp' i = applyMaskStep m2 ch fp' i" if "i < n" for i fp'
    using assms [OF that]
    by (cases "maskAlphaAt m1 i"; cases "maskAlphaAt m2 i") (auto simp add: applyMaskStep_def)
  then show ?thesis
    unfolding applyMask_def by (intro foldl_cong) auto
qed

lemma applyMask_transparent:
  assumes "\<And>i. i < n \<Longrightarrow> maskAlphaAt m i = None \<or> maskAlphaAt m i = Some 0"
  shows "applyMask m ch n fp = fp"
proof -
  have "foldl (applyMaskStep m ch) fp [0..<k] = fp" if "k \<le> n" for k
    using that
  proof (induction k)
    case 0 show ?case by simp
  next
    case (Suc k)
    then have "maskAlphaAt m k = None \<or> maskAlphaAt m k = Some 0" using assms by simp
    with Suc show ?case by (auto simp add: applyMaskStep_def)
  qed
  then show ?thesis by (simp add: applyMask_def)
qed

lemma nth_update_any: "xs[i := v] ! j = (if i = j \<and> i < length xs then v else xs ! j)"
  by (cases "i < length xs") (simp_all add: nth_list_update list_update_beyond)

lemma length_blackenPixel [simp]: "length (blackenPixel fp k) = length fp"
  by (simp add: blackenPixel_def)

lemma length_applyMaskStep [simp]: "length (applyMaskStep m ch fp i) = length fp"
  by (simp add: applyMaskStep_def split: option.splits)

lemma zero_applyMaskStep: "p < length fp \<Longrightarrow> fp ! p = 0 \<Longrightarrow> applyMaskStep m ch fp i ! p = 0"
  by (auto simp add: applyMaskStep_def blackenPixel_def nth_update_any split: option.splits)

lemma blacken_applyMaskStep:
  assumes "maskAlphaAt m i = Some a" and "0 < a"
    and "p \<in> {i * ch, i * ch + 1, i * ch + 2}" and "p < length fp"
  shows "applyMaskStep m ch fp i ! p = 0"
  using assms by (auto simp add: applyMaskStep_def blackenPixel_def nth_update_any)

lemma applyMask_blackens:
  assumes "i < n" and "maskAlphaAt m i = Some a" and "0 < a"
    and "p \<in> {i * ch, i * ch + 1, i * ch + 2}" and "p < length fp"
  shows "applyMask m ch n fp ! p = 0"
proof -
  have len: "length (foldl (applyMaskStep m ch) fp [0..<k]) = length fp" for k
    by (induction k) simp_all
  have "foldl (applyMaskStep m ch) fp [0..<k] ! p = 0" if "i < k" for k
    using that
  proof (induction k)
    case 0 then show ?case by simp
  next
    case (Suc k)
    show ?case
    proof (cases "i = k")
      case True
      then show ?thesis
        using blacken_applyMaskStep [OF assms(2,3,4), of "foldl (applyMaskStep m ch) fp [0..<k]"]
          assms(5) len [of k]
        by simp
    next
      case False
      with Suc have "foldl (applyMaskStep m ch) fp [0..<k] ! p = 0" by simp
      then show ?thesis using assms(5) len [of k] by (simp add: zero_applyMaskStep)
    qed
  qed
  with assms(1) show ?thesis by (simp add: applyMask_def)
qed

subsection \<open>Raster-payload classification\<close>

lemma length_markOpaque [simp]: "length (markOpaque buf k) = length buf"
  by (simp add: markOpaque_def)

lemma length_detectStep [simp]: "length (detectStep raw ch buf i) = length buf"
  by (simp add: detectStep_def)

lemma length_foldl_detectStep [simp]:
  "length (foldl (detectStep raw ch) buf is) = length buf"
  by (induction "is" arbitrary: buf) simp_all

lemma pixelAt_markOpaque_same:
  "i * 4 + 3 < length buf \<Longrightarrow> pixelAt (markOpaque buf (i * 4)) i = (255, 255, 255, 255)"
  by (simp add: pixelAt_def markOpaque_def)

lemma pixelAt_markOpaque_other:
  "i \<noteq> j \<Longrightarrow> pixelAt (markOpaque buf (j * 4)) i = pixelAt buf i"
  by (simp add: pixelAt_def markOpaque_def)

lemma pixelAt_detectStep:
  "i * 4 + 3 < length buf \<Longrightarrow>
   pixelAt (detectStep raw ch buf j) i =
     (if i = j \<and> isMaskPixel raw ch j then (255, 255, 255, 255) else pixelAt buf i)"
  by (simp add: detectStep_def pixelAt_markOpaque_same pixelAt_markOpaque_other)

lemma pixelAt_detect_loop:
  assumes "i * 4 + 3 < length buf"
  shows "pixelAt (foldl (detectStep raw ch) buf [0..<n]) i =
           (if i < n \<and> isMaskPixel raw ch i then (255, 255, 255, 255) else pixelAt buf i)"
  using assms by (induction n) (auto simp add: pixelAt_detectStep less_Suc_eq)

lemma pixelAt_replicate0: "i * 4 + 3 < n \<Longrightarrow> pixelAt (replicate n 0) i = (0, 0, 0, 0)"
  by (simp add: pixelAt_def)

lemma isMaskPixel_rgba:
  assumes "i * 4 + 3 < length raw"
  shows "isMaskPixel raw 4 i \<longleftrightarrow>
     raw ! (i * 4 + 3) > 128 \<and> raw ! (i * 4) > 150 \<and>
     real (raw ! (i * 4)) > 1.5 * real (raw ! (i * 4 + 1)) \<and>
     real (raw ! (i * 4)) > 1.5 * real (raw ! (i * 4 + 2))"
  using assms
  by (simp add: isMaskPixel_def byteAt_def alphaThreshold_def redMinimum_def
      redDominanceRatio_def Let_def mult.commute conj_ac)

text \<open>
  C2: in the raster-payload path, for every pixel of the scaled four-channel mask raster
  with channel values (r, g, b, a), the output pixel is opaque white (255, 255, 255, 255)
  iff a > 128 and r > 150 and r > 1.5 * g and r > 1.5 * b, and fully transparent
  (0, 0, 0, 0) otherwise.
\<close>

theorem createMaskFromBase64_classifies:
  assumes "loadMaskRaster env canvasDataUrl frameWidth frameHeight maskData = Inr maskInfo"
    and "raw_channels maskInfo = 4"
    and "i < frameWidth * frameHeight"
    and "i * 4 + 3 < length (raw_data maskInfo)"
    and "pixelAt (raw_data maskInfo) i = (r, g, b, a)"
  shows "pixelAt (createMaskFromBase64 env canvasDataUrl frameWidth frameHeight maskData) i =
           (if a > 128 \<and> r > 150 \<and> real r > 1.5 * real g \<and> real r > 1.5 * real b
            then (255, 255, 255, 255) else (0, 0, 0, 0))"
proof -
  from assms(3) have len: "i * 4 + 3 < length (replicate (frameWidth * frameHeight * 4) (0::nat))"
    by simp
  have "pixelAt (createMaskFromBase64 env canvasDataUrl frameWidth frameHeight maskData) i =
      (if isMaskPixel (raw_data maskInfo) 4 i then (255, 255, 255, 255) else (0, 0, 0, 0))"
    using assms(1,2,3) pixelAt_detect_loop [OF len, of "raw_data maskInfo" 4 "frameWidth * frameHeight"]
    by (simp add: createMaskFromBase64_def detectMaskPixels_def pixelAt_replicate0)
  moreover have "isMaskPixel (raw_data maskInfo) 4 i \<longleftrightarrow>
      a > 128 \<and> r > 150 \<and> real r > 1.5 * real g \<and> real r > 1.5 * real b"
    using isMaskPixel_rgba [OF assms(4)] assms(5) by (simp add: pixelAt_def)
  ultimately show ?thesis by simp
qed

lemma payload_example: "maskPayload ''data:image/png;base64,AAAA'' = Inr ''AAAA''"
  by (simp add: maskPayload_def)

lemma load_example:
  "loadMaskRaster exampleSharp ''data:image/png;base64,AAAA'' 2 1 None = Inr exampleRaster"
  by (simp add: loadMaskRaster_def payload_example scaleMaskRaster_def exampleSharp_def)

theorem createMaskFromBase64_classifies_witness:
  "pixelAt (createMaskFromBase64 exampleSharp ''data:image/png;base64,AAAA'' 2 1 None) 0
     = (255, 255, 255, 255)
   \<and> pixelAt (createMaskFromBase64 exampleSharp ''data:image/png;base64,AAAA'' 2 1 None) 1
     = (0, 0, 0, 0)"
proof -
  have "pixelAt (createMaskFromBase64 exampleSharp ''data:image/png;base64,AAAA'' 2 1 None) 0 =
      (if (255::nat) > 128 \<and> (200::nat) > 150 \<and> real 200 > 1.5 * real 10 \<and> real 200 > 1.5 * real 10
       then (255, 255, 255, 255) else (0, 0, 0, 0))"
    by (rule createMaskFromBase64_classifies [OF load_example])
       (simp_all add: exampleRaster_def pixelAt_def)
  moreover
  have "pixelAt (createMaskFromBase64 exampleSharp ''data:image/png;base64,AAAA'' 2 1 None) 1 =
      (if (255::nat) > 128 \<and> (200::nat) > 150 \<and> real 200 > 1.5 * real 200 \<and> real 200 > 1.5 * real 10
       then (255, 255, 255, 255) else (0, 0, 0, 0))"
    by (rule createMaskFromBase64_classifies [OF load_example])
       (simp_all add: exampleRaster_def pixelAt_def)
  ultimately show ?thesis by simp
qed

text \<open>
  C9: if validating, decoding or scaling the raster payload fails, \<open>createMaskFromBase64\<close>
  returns the all-zero buffer of \<open>frameWidth * frameHeight * 4\<close> bytes instead of
  propagating the error; compositing with it leaves every frame pixel unchanged, and
  \<open>processFrame\<close> emits the unredacted frame as a successful result.
\<close>

theorem createMaskFromBase64_error_transparent:
  assumes fail: "loadMaskRaster env url w h (Some (t_maskData t)) = Inl e"
    and url: "md_canvasDataUrl (t_maskData t) = Some url" "url \<noteq> []"
    and dbg: "t_frameNumber t = 0 \<longrightarrow> debugExportError env = None"
    and meta: "sharp_metadata env (t_frameBuffer t) = Inr (w, h)" "0 < w" "0 < h"
    and dims: "validateDimensions ref (t_frameNumber t) w h = (Inr (), ref')"
    and raw: "sharp_raw env (t_frameBuffer t) = Inr frameRgb"
    and enc: "sharp_encode env PNG
                \<lparr>raw_data = raw_data frameRgb, raw_width = w, raw_height = h,
                 raw_channels = raw_channels frameRgb\<rparr> (frameResize t) = Inr out"
  shows "createMaskFromBase64 env url w h (Some (t_maskData t)) = replicate (w * h * 4) 0
       \<and> applyMask (createMaskFromBase64 env url w h (Some (t_maskData t))) ch n framePixels
           = framePixels
       \<and> processFrame env ref t =
           (\<lparr>frameNumber = t_frameNumber t, processedBuffer = out, success = True, error = None\<rparr>,
            ref')"
proof -
  have m: "createMaskFromBase64 env url w h (Some (t_maskData t)) = replicate (w * h * 4) 0"
    using fail by (simp add: createMaskFromBase64_def)
  have a: "applyMask (replicate (w * h * 4) 0) c k fp = fp" for c k fp
    by (rule applyMask_transparent) (simp add: maskAlphaAt_def)
  have mk: "createMaskRgbaBuffer env (t_maskData t) w h = Inr (replicate (w * h * 4) 0)"
    using url meta(2,3) m by (simp add: createMaskRgbaBuffer_def hasCanvasDataUrl_def)
  have me: "maskAndEncode env t w h = Inr out"
    using raw mk enc by (simp add: maskAndEncode_def a)
  have dbg': "(if t_frameNumber t = 0 then debugExportError env else None) = None"
    using dbg by simp
  have "processFrame_try env ref t = (Inr out, ref')"
    unfolding processFrame_try_def dbg' using meta dims me by simp
  then show ?thesis using m a by (simp add: processFrame_def)
qed

theorem createMaskFromBase64_error_transparent_witness:
  "loadMaskRaster brokenPayloadSharp ''data:image/png;base64,AAAA'' 2 1 (Some payloadMask)
     = Inl (SharpError ''unsupported image format'')
   \<and> createMaskFromBase64 brokenPayloadSharp ''data:image/png;base64,AAAA'' 2 1 (Some payloadMask)
     = [0, 0, 0, 0, 0, 0, 0, 0]
   \<and> processFrame brokenPayloadSharp None (exampleTask payloadMask 0) =
       (\<lparr>frameNumber = 0, processedBuffer = [9, 9, 9, 7, 7, 7], success = True, error = None\<rparr>,
        Some (2, 1))"
proof -
  let ?t = "exampleTask payloadMask 0"
  let ?url = "''data:image/png;base64,AAAA''"
  have md: "t_maskData ?t = payloadMask" by (simp add: exampleTask_def)
  have l: "loadMaskRaster brokenPayloadSharp ?url 2 1 (Some payloadMask)
     = Inl (SharpError ''unsupported image format'')"
    by (simp add: loadMaskRaster_def payload_example scaleMaskRaster_def brokenPayloadSharp_def
        exampleSharp_def payloadMask_def exampleMask_def)
  have u: "md_canvasDataUrl (t_maskData ?t) = Some ?url"
    by (simp add: exampleTask_def payloadMask_def)
  have dbg: "t_frameNumber ?t = 0 \<longrightarrow> debugExportError brokenPayloadSharp = None"
    by (simp add: brokenPayloadSharp_def exampleSharp_def)
  have m: "sharp_metadata brokenPayloadSharp (t_frameBuffer ?t) = Inr (2, 1)"
    by (simp add: brokenPayloadSharp_def exampleSharp_def exampleTask_def)
  have d: "validateDimensions None (t_frameNumber ?t) 2 1 = (Inr (), Some (2, 1))"
    by (simp add: validateDimensions_def exampleTask_def)
  have r: "sharp_raw brokenPayloadSharp (t_frameBuffer ?t)
      = Inr \<lparr>raw_data = [9, 9, 9, 7, 7, 7], raw_width = 2, raw_height = 1, raw_channels = 3\<rparr>"
    by (simp add: brokenPayloadSharp_def exampleSharp_def exampleTask_def)
  have e: "sharp_encode brokenPayloadSharp PNG
      \<lparr>raw_data = raw_data \<lparr>raw_data = [9, 9, 9, 7, 7, 7], raw_width = 2, raw_height = 1, raw_channels = 3\<rparr>,
       raw_width = 2, raw_height = 1,
       raw_channels = raw_channels \<lparr>raw_data = [9, 9, 9, 7, 7, 7], raw_width = 2, raw_height = 1, raw_channels = 3\<rparr>\<rparr>
      (frameResize ?t) = Inr [9, 9, 9, 7, 7, 7]"
    by (simp add: brokenPayloadSharp_def exampleSharp_def)
  have z: "replicate (2 * 1 * 4) (0::nat) = [0, 0, 0, 0, 0, 0, 0, 0]"
    by code_simp
  note t = createMaskFromBase64_error_transparent
    [of brokenPayloadSharp ?url 2 1 ?t, unfolded md, OF l u [unfolded md] _ dbg m _ _ d r e]
  have t': "createMaskFromBase64 brokenPayloadSharp ?url 2 1 (Some payloadMask) = replicate (2 * 1 * 4) 0
     \<and> processFrame brokenPayloadSharp None ?t =
       (\<lparr>frameNumber = t_frameNumber ?t, processedBuffer = [9, 9, 9, 7, 7, 7], success = True, error = None\<rparr>,
        Some (2, 1))"
    using t [of 3 2 "[9, 9, 9, 7, 7, 7]"] by simp
  have fn: "t_frameNumber ?t = 0" by (simp add: exampleTask_def)
  from l t' show ?thesis unfolding z fn by simp
qed

subsection \<open>Vector-shape path and opacity\<close>

text \<open>
  C10: in the vector-shape path the declared opacity has no blending effect. For every
  opacity \<open>o\<close> with \<open>1 \<le> o \<le> 100\<close> the alpha written at the masked pixels is
  \<open>\<lfloor>(o / 100) * 255\<rfloor> > 0\<close>, the compositor sets the three channels of every masked
  pixel to 0, and the composited frame is the same for all such \<open>o\<close>; with \<open>o = 0\<close>
  the frame is left unchanged.
\<close>

theorem vector_mask_opacity_irrelevant:
  assumes vec: "\<not> hasCanvasDataUrl maskData"
    and o1: "1 \<le> o1" "o1 \<le> 100" and o2: "1 \<le> o2" "o2 \<le> 100"
  shows "createMaskRgbaBuffer env (maskData\<lparr>md_opacity := o1\<rparr>) width height
           = Inr (vectorMask (maskData\<lparr>md_opacity := o1\<rparr>) width height)
       \<and> (\<forall>idx \<in> set (maskRegion maskData width height). idx + 3 < width * height * 4 \<longrightarrow>
             vectorMask (maskData\<lparr>md_opacity := o1\<rparr>) width height ! (idx + 3)
               = nat \<lfloor>(o1 / 100) * 255\<rfloor>
             \<and> 0 < vectorMask (maskData\<lparr>md_opacity := o1\<rparr>) width height ! (idx + 3))
       \<and> (\<forall>i < n. i * 4 \<in> set (maskRegion maskData width height) \<longrightarrow> i * 4 + 3 < width * height * 4 \<longrightarrow>
             (\<forall>p \<in> {i * ch, i * ch + 1, i * ch + 2}. p < length framePixels \<longrightarrow>
                applyMask (vectorMask (maskData\<lparr>md_opacity := o1\<rparr>) width height) ch n framePixels ! p = 0))
       \<and> applyMask (vectorMask (maskData\<lparr>md_opacity := o1\<rparr>) width height) ch n framePixels
           = applyMask (vectorMask (maskData\<lparr>md_opacity := o2\<rparr>) width height) ch n framePixels
       \<and> applyMask (vectorMask (maskData\<lparr>md_opacity := 0\<rparr>) width height) ch n framePixels
           = framePixels"
proof -
  let ?m = "\<lambda>opac. vectorMask (maskData\<lparr>md_opacity := opac\<rparr>) width height"
  let ?R = "set (maskRegion maskData width height)"
  have alpha: "maskAlphaAt (?m opac) i =
      (if i * 4 + 3 < width * height * 4
       then Some (if i * 4 \<in> ?R then opacityByte opac else 0) else None)" for opac i
    by (simp add: maskAlphaAt_vectorMask)
  have c1: "createMaskRgbaBuffer env (maskData\<lparr>md_opacity := o1\<rparr>) width height = Inr (?m o1)"
    using vec by (simp add: createMaskRgbaBuffer_def hasCanvasDataUrl_def)
  have c2: "\<forall>idx \<in> ?R. idx + 3 < width * height * 4 \<longrightarrow>
      ?m o1 ! (idx + 3) = nat \<lfloor>(o1 / 100) * 255\<rfloor> \<and> 0 < ?m o1 ! (idx + 3)"
  proof (intro ballI impI)
    fix idx assume idx: "idx \<in> ?R" and lt: "idx + 3 < width * height * 4"
    from maskRegion_dvd [OF idx] obtain k where k: "idx = k * 4" by (auto simp: dvd_def)
    have "maskAlphaAt (?m o1) k = Some (opacityByte o1)"
      using idx lt unfolding k alpha by simp
    then have "?m o1 ! (idx + 3) = opacityByte o1"
      unfolding k by (simp add: maskAlphaAt_def split: if_splits)
    then show "?m o1 ! (idx + 3) = nat \<lfloor>(o1 / 100) * 255\<rfloor> \<and> 0 < ?m o1 ! (idx + 3)"
      using opacityByte_range [OF o1] by simp
  qed
  have c3: "\<forall>i < n. i * 4 \<in> ?R \<longrightarrow> i * 4 + 3 < width * height * 4 \<longrightarrow>
      (\<forall>p \<in> {i * ch, i * ch + 1, i * ch + 2}. p < length framePixels \<longrightarrow>
         applyMask (?m o1) ch n framePixels ! p = 0)"
  proof (intro allI impI ballI)
    fix i p
    assume "i < n" "i * 4 \<in> ?R" "i * 4 + 3 < width * height * 4"
      "p \<in> {i * ch, i * ch + 1, i * ch + 2}" "p < length framePixels"
    moreover from this have "maskAlphaAt (?m o1) i = Some (opacityByte o1)"
      unfolding alpha by simp
    ultimately show "applyMask (?m o1) ch n framePixels ! p = 0"
      using opacityByte_range(2) [OF o1] by (intro applyMask_blackens) auto
  qed
  have c4: "applyMask (?m o1) ch n framePixels = applyMask (?m o2) ch n framePixels"
    using opacityByte_range(2) [OF o1] opacityByte_range(2) [OF o2]
    by (intro applyMask_cong) (simp add: alpha)
  have c5: "applyMask (?m 0) ch n framePixels = framePixels"
    by (rule applyMask_transparent) (simp add: alpha)
  from c1 c2 c3 c4 c5 show ?thesis by blast
qed

lemma vm_example25: "vectorMask (exampleMask\<lparr>md_opacity := 25\<rparr>) 2 1 = [255, 255, 255, 63, 0, 0, 0, 0]"
  by code_simp

lemma vm_example100: "vectorMask (exampleMask\<lparr>md_opacity := 100\<rparr>) 2 1 = [255, 255, 255, 255, 0, 0, 0, 0]"
  by code_simp

lemma am_example: "applyMask [255, 255, 255, 63, 0, 0, 0, 0] 3 2 [9, 9, 9, 7, 7, 7] = [0, 0, 0, 7, 7, 7]"
  by code_simp

theorem vector_mask_opacity_irrelevant_witness:
  "\<not> hasCanvasDataUrl exampleMask
   \<and> createMaskRgbaBuffer exampleSharp (exampleMask\<lparr>md_opacity := 25\<rparr>) 2 1
       = Inr [255, 255, 255, 63, 0, 0, 0, 0]
   \<and> applyMask (vectorMask (exampleMask\<lparr>md_opacity := 25\<rparr>) 2 1) 3 2 [9, 9, 9, 7, 7, 7]
       = [0, 0, 0, 7, 7, 7]
   \<and> applyMask (vectorMask (exampleMask\<lparr>md_opacity := 100\<rparr>) 2 1) 3 2 [9, 9, 9, 7, 7, 7]
       = [0, 0, 0, 7, 7, 7]
   \<and> applyMask (vectorMask (exampleMask\<lparr>md_opacity := 0\<rparr>) 2 1) 3 2 [9, 9, 9, 7, 7, 7]
       = [9, 9, 9, 7, 7, 7]"
proof -
  have v: "\<not> hasCanvasDataUrl exampleMask"
    by (simp add: hasCanvasDataUrl_def exampleMask_def)
  have a25: "applyMask (vectorMask (exampleMask\<lparr>md_opacity := 25\<rparr>) 2 1) 3 2 [9, 9, 9, 7, 7, 7]
       = [0, 0, 0, 7, 7, 7]"
    by (simp only: vm_example25 am_example)
  show ?thesis
    using vector_mask_opacity_irrelevant [OF v, of 25 100 exampleSharp 2 1 2 3 "[9, 9, 9, 7, 7, 7]"]
      v a25 vm_example25
    by simp
qed

section \<open>Batch scheduling and the order of the results\<close>







lemma upt_split: "a \<le> b \<Longrightarrow> b \<le> c \<Longrightarrow> [a..<b] @ [b..<c] = [a..<(c::nat)]"
  by (metis le_Suc_ex upt_add_eq_append)


lemma createFrameBatches_from_partition:
  assumes "0 < batchSize"
  shows "\<exists>batches. createFrameBatches_from start totalFrames batchSize = Some batches
           \<and> concat (map batchFrames batches) = [start..<totalFrames]
           \<and> (\<forall>b \<in> set batches. fst b \<le> snd b)"
proof (induction "totalFrames - start" arbitrary: start rule: less_induct)
  case less
  show ?case
  proof (cases "start < totalFrames")
    case False
    then show ?thesis
      by (subst createFrameBatches_from.simps) simp
  next
    case True
    with assms have "totalFrames - (start + batchSize) < totalFrames - start" by simp
    from less [OF this] obtain rest where
      rest: "createFrameBatches_from (start + batchSize) totalFrames batchSize = Some rest"
      and cover: "concat (map batchFrames rest) = [start + batchSize..<totalFrames]"
      and ord: "\<forall>b \<in> set rest. fst b \<le> snd b"
      by blast
    let ?b = "(start, min (start + batchSize - 1) (totalFrames - 1))"
    have eq: "createFrameBatches_from start totalFrames batchSize = Some (?b # rest)"
      using True rest by (subst createFrameBatches_from.simps) simp
    have "min (start + batchSize - 1) (totalFrames - 1) + 1 = min (start + batchSize) totalFrames"
      using True assms by arith
    then have b: "batchFrames ?b = [start..<min (start + batchSize) totalFrames]"
      by (simp only: batchFrames_def fst_conv snd_conv)
    have "batchFrames ?b @ [start + batchSize..<totalFrames] = [start..<totalFrames]"
    proof (cases "start + batchSize \<le> totalFrames")
      case True
      then show ?thesis unfolding b by (simp add: upt_split)
    next
      case False
      then show ?thesis unfolding b by simp
    qed
    with eq cover ord True assms show ?thesis by (auto simp add: min_def)
  qed
qed


lemma createFrameBatches_returns:
  "0 < batchSize \<Longrightarrow> \<exists>batches. createFrameBatches totalFrames batchSize = Some batches"
  using createFrameBatches_from_partition [of batchSize 0 totalFrames]
  by (auto simp add: createFrameBatches_def)







lemma fst_processedFrameOf [simp]: "fst (processedFrameOf r) = frameNumber r"
  by (simp add: processedFrameOf_def)














end
